theory Spec2Isabelle
  imports Main "HOL-Library.AList"
begin

section \<open>Python values, strings and dictionaries\<close>

text \<open>
  A Python \<open>str\<close> is a sequence of Unicode code points, so it is modelled as a list of
  natural numbers; \<open>u\<close> reads an ASCII literal. Characters outside ASCII and the quote
  characters are written as their code points (for example 237 for the accented i of
  the Spanish texts, 34 for the double quote, 39 for the apostrophe).
\<close>

type_synonym pystr = "nat list"

abbreviation u :: "string \<Rightarrow> pystr" where
  "u s \<equiv> map of_char s"

text \<open>
  The values the dictionaries of this program carry in their fields (titles,
  descriptions, names, addresses) are JSON strings or \<open>null\<close>: \<open>str\<close> or \<open>None\<close>.
\<close>

datatype pyval = PNone | PStr pystr

text \<open>Truthiness (\<open>if x:\<close>, \<open>x or y\<close>, \<open>not x\<close>).\<close>

fun truthy :: "pyval \<Rightarrow> bool" where
  "truthy PNone = False"
| "truthy (PStr s) = (s \<noteq> [])"

text \<open>What an f-string writes for \<open>{x}\<close>.\<close>

fun py_str :: "pyval \<Rightarrow> pystr" where
  "py_str PNone = u ''None''"
| "py_str (PStr s) = s"

text \<open>\<open>str(i)\<close> for the item numbers of \<open>enumerate\<close>.\<close>

fun str_of_nat :: "nat \<Rightarrow> pystr" where
  "str_of_nat n = (if n < 10 then [48 + n] else str_of_nat (n div 10) @ [48 + n mod 10])"

declare str_of_nat.simps [simp del]

text \<open>
  A \<open>dict\<close> with string keys is an association list in insertion order with distinct
  keys: \<open>d.get(k, default)\<close> is \<open>dict_get\<close>, \<open>d.get(k)\<close> and \<open>k in d\<close> read \<open>map_of\<close>,
  and \<open>d[k] = v\<close> is \<open>AList.update\<close> (the value is replaced in place when the key exists,
  the pair is appended otherwise).
\<close>

type_synonym 'v pydict = "(pystr \<times> 'v) list"

definition dict_get :: "'v pydict \<Rightarrow> pystr \<Rightarrow> 'v \<Rightarrow> 'v" where
  "dict_get d k dflt = (case map_of d k of None \<Rightarrow> dflt | Some v \<Rightarrow> v)"

text \<open>\<open>str.isspace\<close> for one code point, the set \<open>str.strip()\<close> removes.\<close>

definition py_isspace :: "nat \<Rightarrow> bool" where
  "py_isspace c =
     (c \<in> {9, 10, 11, 12, 13, 28, 29, 30, 31, 32, 133, 160, 5760, 8232, 8233, 8239, 8287, 12288}
      \<or> (8192 \<le> c \<and> c \<le> 8202))"

definition py_strip :: "pystr \<Rightarrow> pystr" where
  "py_strip s = rev (dropWhile py_isspace (rev (dropWhile py_isspace s)))"

text \<open>\<open>s.strip(chars)\<close>.\<close>

definition py_strip_chars :: "pystr \<Rightarrow> pystr \<Rightarrow> pystr" where
  "py_strip_chars chars s =
     rev (dropWhile (\<lambda>c. c \<in> set chars) (rev (dropWhile (\<lambda>c. c \<in> set chars) s)))"

text \<open>
  The first occurrence of a separator: the text before it and the text after it.
  \<open>s.split(sep, 1)\<close> and \<open>sep in s\<close> are read from it; the separators of this program
  are non-empty literals.
\<close>

fun partition_first :: "pystr \<Rightarrow> pystr \<Rightarrow> (pystr \<times> pystr) option" where
  "partition_first sep [] = (if sep = [] then Some ([], []) else None)"
| "partition_first sep (c # cs) =
     (if take (length sep) (c # cs) = sep then Some ([], drop (length sep) (c # cs))
      else (case partition_first sep cs of
              None \<Rightarrow> None
            | Some (a, b) \<Rightarrow> Some (c # a, b)))"

definition py_split1 :: "pystr \<Rightarrow> pystr \<Rightarrow> pystr list" where
  "py_split1 sep s = (case partition_first sep s of None \<Rightarrow> [s] | Some (a, b) \<Rightarrow> [a, b])"

definition py_contains :: "pystr \<Rightarrow> pystr \<Rightarrow> bool" where
  "py_contains sep s = (partition_first sep s \<noteq> None)"

text \<open>\<open>s.split(c)\<close> for a one-character separator.\<close>

fun py_split_char :: "nat \<Rightarrow> pystr \<Rightarrow> pystr list" where
  "py_split_char c [] = [[]]"
| "py_split_char c (x # xs) =
     (if x = c then [] # py_split_char c xs
      else (case py_split_char c xs of
              [] \<Rightarrow> [[x]]
            | w # ws \<Rightarrow> (x # w) # ws))"

text \<open>\<open>sep.join(xs)\<close> for a list of strings.\<close>

fun py_join :: "pystr \<Rightarrow> pystr list \<Rightarrow> pystr" where
  "py_join sep [] = []"
| "py_join sep [x] = x"
| "py_join sep (x # y # ys) = x @ sep @ py_join sep (y # ys)"

text \<open>
  The exceptions of a run: the \<open>TypeError\<close> of a join, the \<open>UnicodeEncodeError\<close> of an
  encoder with the string it was given, and an exception of an external capability with
  its text.
\<close>

datatype exn = TypeError | UnicodeEncodeError pystr | Raised pystr

text \<open>
  \<open>sep.join(xs)\<close> for a list of field values: it raises \<open>TypeError\<close> when an element is
  not a \<open>str\<close>.
\<close>

fun the_strs :: "pyval list \<Rightarrow> pystr list option" where
  "the_strs [] = Some []"
| "the_strs (PStr s # vs) = (case the_strs vs of None \<Rightarrow> None | Some ss \<Rightarrow> Some (s # ss))"
| "the_strs (PNone # vs) = None"

definition py_join_vals :: "pystr \<Rightarrow> pyval list \<Rightarrow> exn + pystr" where
  "py_join_vals sep vs =
     (case the_strs vs of None \<Rightarrow> Inl TypeError | Some ss \<Rightarrow> Inr (py_join sep ss))"

text \<open>
  A \<open>str\<close> may hold surrogate code points (\<open>json.loads\<close> yields one for an escape
  such as \<open>\ud800\<close>), and the encoders refuse them. The standard output is taken to be
  UTF-8 with the strict error handler, Python's default: \<open>print(s)\<close> raises
  \<open>UnicodeEncodeError\<close> exactly when \<open>s\<close> holds a surrogate.
\<close>

definition surrogate :: "nat \<Rightarrow> bool" where
  "surrogate c = (55296 \<le> c \<and> c \<le> 57343)"

definition printable :: "pystr \<Rightarrow> bool" where
  "printable s = list_all (\<lambda>c. \<not> surrogate c) s"

text \<open>
  The mail library (\<open>email.mime\<close>, read from the standard library of Python 3.11).
  \<open>MIMEText(body, subtype)\<close> encodes the body with the \<open>surrogateescape\<close> handler, which
  takes the surrogates U+DC80 to U+DCFF and refuses every other one.
\<close>

definition escapable :: "nat \<Rightarrow> bool" where
  "escapable c = (56448 \<le> c \<and> c \<le> 56575)"

definition refused :: "nat \<Rightarrow> bool" where
  "refused c = (surrogate c \<and> \<not> escapable c)"

definition mime_encodable :: "pystr \<Rightarrow> bool" where
  "mime_encodable s = list_all (\<lambda>c. \<not> refused c) s"

text \<open>
  Reading a header back (\<open>msg['Subject']\<close>) gives the string that was stored when it has
  no surrogate; with surrogates it gives a \<open>Header\<close> object made from the string when
  every character is ASCII or one of the surrogates the handler takes, and raises
  otherwise.
\<close>

datatype header_value = HeaderStr pystr | HeaderObject pystr

definition read_header :: "pystr \<Rightarrow> exn + header_value" where
  "read_header s =
     (if printable s then Inr (HeaderStr s)
      else if list_all (\<lambda>c. c < 128 \<or> escapable c) s then Inr (HeaderObject s)
      else Inl (UnicodeEncodeError s))"

text \<open>\<open>xs[:n]\<close> for a Python integer \<open>n\<close>: a negative \<open>n\<close> counts from the end.\<close>

definition py_slice_to :: "int \<Rightarrow> 'a list \<Rightarrow> 'a list" where
  "py_slice_to n xs = (if 0 \<le> n then take (nat n) xs else take (nat (int (length xs) + n)) xs)"

section \<open>The external capabilities\<close>

text \<open>
  The generation capability, the search capability, the template engine, the clock and
  the mail transport are outside the program. Each is a function of the calls made so
  far (the trace) and of the request, so that any one run of any stateful service is the
  run of some such function; every call appends its event to the trace. A generation
  request lists the values the call site interpolates into its fixed prompt text.
  The generation answer is \<open>None\<close> when the call or the reading of
  \<open>response.choices[0].message.content\<close> raises, the search answer is \<open>None\<close> when any step
  of the \<open>try\<close> block of \<open>_fetch_from_news_api\<close> raises, the template answer is \<open>None\<close> when
  \<open>get_template\<close> or \<open>render\<close> raises, the clock answer is the formatted date of
  \<open>datetime.now()\<close>, and the transport answer is \<open>Some e\<close> when a step of the session
  (open, starttls, login, send_message, quit) raises an exception whose text is \<open>e\<close>.

  Logging never raises into the program and is left out. A \<open>print\<close> in an exception
  handler writes a fixed text, the text of the exception and, in \<open>_summarize_article\<close>,
  the title of the item. The texts of the exceptions of the external capabilities are
  taken to hold no surrogate, as the fixed texts do, so the one \<open>print\<close> that can raise
  is the one that writes a title, and it is modelled there.
\<close>

datatype gen_request =
    SearchTermsPrompt pystr pyval
  | TopicSummaryPrompt pystr pystr
  | ArticleSummaryPrompt pystr int pystr bool
  | TitlePrompt pyval pystr
  | IntroductionPrompt pyval pystr

datatype event =
    GenCall gen_request
  | SearchCall pystr pystr
  | ClockRead
  | TemplateRender pystr
  | SmtpSession

type_synonym trace = "event list"

type_synonym article = "pyval pydict"

record raw_article =
  raw_fields :: "pyval pydict"
  raw_source :: "pyval pydict option"

type_synonym gen_oracle = "trace \<Rightarrow> gen_request \<Rightarrow> pystr option"
type_synonym search_oracle = "trace \<Rightarrow> pystr \<Rightarrow> pystr \<Rightarrow> raw_article list option"

text \<open>The topic a generation request of the summarizer is about.\<close>

fun request_topic :: "event \<Rightarrow> pystr option" where
  "request_topic (GenCall (TopicSummaryPrompt topic context)) = Some topic"
| "request_topic (GenCall (ArticleSummaryPrompt topic n context r)) = Some topic"
| "request_topic e = None"

section \<open>NewsFetcherAgent\<close>

record topic =
  topic_name :: pystr
  topic_description :: "pyval option"

definition get_search_terms :: "gen_oracle \<Rightarrow> pystr \<Rightarrow> pyval \<Rightarrow> trace \<Rightarrow> pystr list \<times> trace" where
  "get_search_terms gen name desc tr =
     (case gen tr (SearchTermsPrompt name desc) of
        Some content \<Rightarrow> map py_strip (py_split_char 44 (py_strip content))
      | None \<Rightarrow> [name],
      tr @ [GenCall (SearchTermsPrompt name desc)])"

definition process_article :: "pystr \<Rightarrow> raw_article \<Rightarrow> article" where
  "process_article query a =
     [(u ''title'', dict_get (raw_fields a) (u ''title'') (PStr [])),
      (u ''description'', dict_get (raw_fields a) (u ''description'') (PStr [])),
      (u ''content'', dict_get (raw_fields a) (u ''content'') (PStr [])),
      (u ''url'', dict_get (raw_fields a) (u ''url'') (PStr [])),
      (u ''source'', dict_get (case raw_source a of None \<Rightarrow> [] | Some s \<Rightarrow> s) (u ''name'') (PStr [])),
      (u ''published_at'', dict_get (raw_fields a) (u ''publishedAt'') (PStr [])),
      (u ''search_term'', PStr query)]"

definition fetch_from_news_api ::
  "search_oracle \<Rightarrow> pystr \<Rightarrow> pystr \<Rightarrow> trace \<Rightarrow> article list \<times> trace" where
  "fetch_from_news_api search query language tr =
     (case search tr query language of
        Some raws \<Rightarrow> map (process_article query) raws
      | None \<Rightarrow> [],
      tr @ [SearchCall query language])"

text \<open>
  The loop over the search terms of one topic. \<open>_fetch_from_news_api\<close> catches every
  exception itself, so the \<open>except\<close> of the loop body has nothing to catch.
\<close>

fun accumulate_news ::
  "search_oracle \<Rightarrow> int \<Rightarrow> pystr \<Rightarrow> pystr list \<Rightarrow> article list \<Rightarrow> trace \<Rightarrow> article list \<times> trace" where
  "accumulate_news search cap language [] news_items tr = (news_items, tr)"
| "accumulate_news search cap language (term # terms) news_items tr =
     (case fetch_from_news_api search term language tr of
        (articles, tr') \<Rightarrow>
          if cap \<le> int (length (news_items @ articles))
          then (py_slice_to cap (news_items @ articles), tr')
          else accumulate_news search cap language terms (news_items @ articles) tr')"

fun get_news_loop ::
  "gen_oracle \<Rightarrow> search_oracle \<Rightarrow> int \<Rightarrow> pystr \<Rightarrow> topic list \<Rightarrow> (article list) pydict \<Rightarrow> trace
   \<Rightarrow> (article list) pydict \<times> trace" where
  "get_news_loop gen search cap language [] results tr = (results, tr)"
| "get_news_loop gen search cap language (t # ts) results tr =
     (case get_search_terms gen (topic_name t)
             (case topic_description t of None \<Rightarrow> PStr [] | Some d \<Rightarrow> d) tr of
        (search_terms, tr1) \<Rightarrow>
          (case accumulate_news search cap language search_terms [] tr1 of
             (news_items, tr2) \<Rightarrow>
               get_news_loop gen search cap language ts
                 (AList.update (topic_name t) news_items results) tr2))"

definition get_news_for_topics ::
  "gen_oracle \<Rightarrow> search_oracle \<Rightarrow> int \<Rightarrow> topic list \<Rightarrow> pystr \<Rightarrow> trace
   \<Rightarrow> (article list) pydict \<times> trace" where
  "get_news_for_topics gen search max_articles_per_topic topics language tr =
     get_news_loop gen search max_articles_per_topic language topics [] tr"

section \<open>SummarizerAgent\<close>

text \<open>A topic's entry of the result: the dictionary with the keys summary and articles.\<close>

record topic_result =
  bundle_summary :: "pyval option"
  bundle_articles :: "article list option"

definition topic_context :: "article list \<Rightarrow> exn + pystr" where
  "topic_context news_items =
     (let titles = map (\<lambda>item. dict_get item (u ''title'') (PStr [])) news_items;
          descriptions =
            map (\<lambda>item. dict_get item (u ''description'') (PStr []))
              (filter (\<lambda>item. case map_of item (u ''description'') of
                                 None \<Rightarrow> False | Some d \<Rightarrow> truthy d) news_items)
      in case py_join_vals (u ''\<newline>'') (take 3 titles) of
           Inl e \<Rightarrow> Inl e
         | Inr ts \<Rightarrow>
             (case py_join_vals (u ''\<newline>'') (take 3 descriptions) of
                Inl e \<Rightarrow> Inl e
              | Inr ds \<Rightarrow>
                  Inr (py_join (u ''\<newline>\<newline>'')
                        [u ''T'' @ [237] @ u ''tulos:'', ts,
                         u ''\<newline>Descripciones:'', ds])))"

definition generate_topic_summary ::
  "gen_oracle \<Rightarrow> pystr \<Rightarrow> article list \<Rightarrow> trace \<Rightarrow> (exn + pystr) \<times> trace" where
  "generate_topic_summary gen topic news_items tr =
     (case topic_context news_items of
        Inl e \<Rightarrow> (Inl e, tr)
      | Inr context \<Rightarrow>
          (case gen tr (TopicSummaryPrompt topic context) of
             Some content \<Rightarrow> Inr (py_strip content)
           | None \<Rightarrow> Inr (u ''Resumen no disponible para '' @ [39] @ topic @ [39] @ u ''.''),
           tr @ [GenCall (TopicSummaryPrompt topic context)]))"

definition article_context :: "article \<Rightarrow> pystr" where
  "article_context article =
     (let title = dict_get article (u ''title'') (PStr []);
          description = dict_get article (u ''description'') (PStr []);
          content = dict_get article (u ''content'') (PStr [])
      in u ''T'' @ [237] @ u ''tulo: '' @ py_str title @ u ''\<newline>''
         @ (if truthy description
            then u ''Descripci'' @ [243] @ u ''n: '' @ py_str description @ u ''\<newline>'' else [])
         @ (if truthy content
            then u ''Contenido: '' @ py_str content @ u ''\<newline>'' else []))"

definition article_prompt :: "int \<Rightarrow> article \<Rightarrow> pystr \<Rightarrow> bool \<Rightarrow> gen_request" where
  "article_prompt max_summary_length article topic include_relevance =
     ArticleSummaryPrompt topic max_summary_length (article_context article) include_relevance"

text \<open>The parsing of a generation answer: the pair of \<open>summary\<close> and \<open>relevance\<close>.\<close>

definition parse_response :: "bool \<Rightarrow> pystr \<Rightarrow> pystr \<times> pystr" where
  "parse_response include_relevance response_text =
     (if include_relevance
      then (let parts = py_split1 (u ''Relevancia:'') response_text
            in if 1 < length parts
               then (let summary_part = parts ! 0;
                         relevance = py_strip (parts ! 1)
                     in (if py_contains (u ''Resumen:'') summary_part
                         then py_strip (py_split1 (u ''Resumen:'') summary_part ! 1)
                         else py_strip summary_part,
                         relevance))
               else (response_text, []))
      else (response_text, []))"

text \<open>
  The \<open>except\<close> handler of \<open>_summarize_article\<close> prints the title before it builds the
  fallback; when the \<open>print\<close> raises, the exception leaves the function.
\<close>

definition summarize_article ::
  "gen_oracle \<Rightarrow> int \<Rightarrow> article \<Rightarrow> pystr \<Rightarrow> bool \<Rightarrow> trace \<Rightarrow> (exn + article) \<times> trace" where
  "summarize_article gen max_summary_length article topic include_relevance tr =
     (let title = dict_get article (u ''title'') (PStr []);
          description = dict_get article (u ''description'') (PStr []);
          prompt = article_prompt max_summary_length article topic include_relevance
      in (case gen tr prompt of
            Some content \<Rightarrow>
              (case parse_response include_relevance (py_strip content) of
                 (summary, relevance) \<Rightarrow>
                   (let summarized_article = AList.update (u ''summary'') (PStr summary) article
                    in if relevance \<noteq> []
                       then Inr (AList.update (u ''relevance'') (PStr relevance)
                                   summarized_article)
                       else Inr summarized_article))
          | None \<Rightarrow>
              if \<not> printable (py_str title) then Inl (UnicodeEncodeError (py_str title))
              else
                (let summarized_article =
                       AList.update (u ''summary'')
                         (if truthy description then description
                          else PStr (u ''Resumen no disponible.'')) article
                 in if include_relevance
                    then Inr (AList.update (u ''relevance'')
                                (PStr (u ''Informaci'' @ [243] @ u ''n no disponible.''))
                                summarized_article)
                    else Inr summarized_article),
          tr @ [GenCall prompt]))"

fun summarize_articles ::
  "gen_oracle \<Rightarrow> int \<Rightarrow> pystr \<Rightarrow> bool \<Rightarrow> article list \<Rightarrow> trace
   \<Rightarrow> (exn + article list) \<times> trace" where
  "summarize_articles gen n topic incl [] tr = (Inr [], tr)"
| "summarize_articles gen n topic incl (a # as) tr =
     (case summarize_article gen n a topic incl tr of
        (Inl e, tr1) \<Rightarrow> (Inl e, tr1)
      | (Inr s, tr1) \<Rightarrow>
          (case summarize_articles gen n topic incl as tr1 of
             (Inl e, tr2) \<Rightarrow> (Inl e, tr2)
           | (Inr ss, tr2) \<Rightarrow> (Inr (s # ss), tr2)))"

definition no_news_summary :: "pystr \<Rightarrow> pystr" where
  "no_news_summary topic =
     u ''No se encontraron noticias para el t'' @ [243] @ u ''pico '' @ [39] @ topic @ [39] @ u ''.''"

text \<open>
  The loop over \<open>news_by_topic.items()\<close>. An exception leaves the loop and the function;
  the calls made before it stay made.
\<close>

fun summarize_loop ::
  "gen_oracle \<Rightarrow> int \<Rightarrow> bool \<Rightarrow> (article list) pydict \<Rightarrow> topic_result pydict \<Rightarrow> trace
   \<Rightarrow> (exn + topic_result pydict) \<times> trace" where
  "summarize_loop gen n incl [] summarized_results tr = (Inr summarized_results, tr)"
| "summarize_loop gen n incl ((topic, news_items) # rest) summarized_results tr =
     (if news_items = []
      then summarize_loop gen n incl rest
             (AList.update topic
                \<lparr>bundle_summary = Some (PStr (no_news_summary topic)),
                 bundle_articles = Some []\<rparr> summarized_results) tr
      else (case generate_topic_summary gen topic news_items tr of
              (Inl e, tr1) \<Rightarrow> (Inl e, tr1)
            | (Inr topic_summary, tr1) \<Rightarrow>
                (case summarize_articles gen n topic incl news_items tr1 of
                   (Inl e, tr2) \<Rightarrow> (Inl e, tr2)
                 | (Inr summarized_articles, tr2) \<Rightarrow>
                     summarize_loop gen n incl rest
                       (AList.update topic
                          \<lparr>bundle_summary = Some (PStr topic_summary),
                           bundle_articles = Some summarized_articles\<rparr> summarized_results)
                       tr2)))"

definition summarize_news_by_topic ::
  "gen_oracle \<Rightarrow> int \<Rightarrow> bool \<Rightarrow> (article list) pydict \<Rightarrow> trace
   \<Rightarrow> (exn + topic_result pydict) \<times> trace" where
  "summarize_news_by_topic gen max_summary_length include_relevance news_by_topic tr =
     summarize_loop gen max_summary_length include_relevance news_by_topic [] tr"

section \<open>FormatterAgent\<close>

record topic_data =
  td_name :: pystr
  td_summary :: pyval
  td_articles :: "article list"

record template_data =
  tpl_user_name :: pyval
  tpl_newsletter_title :: pystr
  tpl_introduction :: pystr
  tpl_topics :: "topic_data list"
  tpl_date :: pystr

type_synonym clock_oracle = "trace \<Rightarrow> pystr"
type_synonym template_oracle = "trace \<Rightarrow> pystr \<Rightarrow> template_data \<Rightarrow> pystr option"

text \<open>The first three topic names, with the suffix of the call site when there are more.\<close>

definition topics_text :: "pystr \<Rightarrow> pystr list \<Rightarrow> pystr" where
  "topics_text suffix topic_names =
     py_join (u '', '') (take 3 topic_names) @ (if 3 < length topic_names then suffix else [])"

definition generate_title :: "gen_oracle \<Rightarrow> pyval \<Rightarrow> pystr list \<Rightarrow> trace \<Rightarrow> pystr \<times> trace" where
  "generate_title gen user_name topic_names tr =
     (let tt = topics_text (u '' y m'' @ [225] @ u ''s'') topic_names
      in (case gen tr (TitlePrompt user_name tt) of
            Some content \<Rightarrow> py_strip_chars [34, 39] (py_strip content)
          | None \<Rightarrow> u ''Tu Resumen de Noticias: '' @ tt,
          tr @ [GenCall (TitlePrompt user_name tt)]))"

definition generate_introduction ::
  "gen_oracle \<Rightarrow> pyval \<Rightarrow> pystr list \<Rightarrow> trace \<Rightarrow> pystr \<times> trace" where
  "generate_introduction gen user_name topic_names tr =
     (let tt = topics_text (u '' y otros temas'') topic_names
      in (case gen tr (IntroductionPrompt user_name tt) of
            Some content \<Rightarrow> py_strip content
          | None \<Rightarrow>
              u ''Hola '' @ py_str user_name @ u '', aqu'' @ [237]
              @ u '' tienes tu resumen de noticias sobre '' @ tt @ u '' para hoy.'',
          tr @ [GenCall (IntroductionPrompt user_name tt)]))"

definition get_formatted_date :: "clock_oracle \<Rightarrow> trace \<Rightarrow> pystr \<times> trace" where
  "get_formatted_date clock tr = (clock tr, tr @ [ClockRead])"

text \<open>The items of one topic in the plain text, numbered from \<open>i\<close>.\<close>

fun text_articles :: "nat \<Rightarrow> article list \<Rightarrow> pystr" where
  "text_articles i [] = []"
| "text_articles i (article # rest) =
     str_of_nat i @ u ''. ''
     @ py_str (dict_get article (u ''title'') (PStr (u ''Sin t'' @ [237] @ u ''tulo''))) @ u ''\<newline>''
     @ u ''   '' @ py_str (dict_get article (u ''summary'') (PStr (u ''Sin resumen''))) @ u ''\<newline>''
     @ (case map_of article (u ''relevance'') of
          None \<Rightarrow> []
        | Some r \<Rightarrow> u ''   Relevancia: '' @ py_str r @ u ''\<newline>'')
     @ u ''   Fuente: '' @ py_str (dict_get article (u ''source'') (PStr (u ''Desconocida'')))
     @ u '' - '' @ py_str (dict_get article (u ''url'') (PStr [])) @ u ''\<newline>\<newline>''
     @ text_articles (Suc i) rest"

definition text_topic :: "(pystr \<Rightarrow> pystr) \<Rightarrow> topic_data \<Rightarrow> pystr" where
  "text_topic upper t =
     [128311] @ u '' '' @ upper (td_name t) @ u ''\<newline>''
     @ py_str (td_summary t) @ u ''\<newline>\<newline>''
     @ text_articles 1 (td_articles t)
     @ u ''\<newline>''"

text \<open>\<open>upper\<close> is \<open>str.upper\<close>, whose table is Python's.\<close>

definition generate_text_version :: "(pystr \<Rightarrow> pystr) \<Rightarrow> template_data \<Rightarrow> pystr" where
  "generate_text_version upper data =
     [128240] @ u '' '' @ tpl_newsletter_title data @ u ''\<newline>''
     @ [128197] @ u '' '' @ tpl_date data @ u ''\<newline>\<newline>''
     @ u ''Hola '' @ py_str (tpl_user_name data) @ u '',\<newline>\<newline>''
     @ tpl_introduction data @ u ''\<newline>\<newline>''
     @ concat (map (text_topic upper) (tpl_topics data))
     @ [161] @ u ''Gracias por leer tu newsletter personalizado!\<newline>''
     @ u ''Recibe este resumen diariamente seg'' @ [250] @ u ''n tus intereses.\<newline>''"

definition html_article :: "article \<Rightarrow> pystr" where
  "html_article article =
     u ''\<newline>                <div style='' @ [34]
     @ u ''margin-bottom: 20px; padding-bottom: 10px; border-bottom: 1px solid #eee;'' @ [34]
     @ u ''>\<newline>                    <h3>''
     @ py_str (dict_get article (u ''title'') (PStr (u ''Sin t'' @ [237] @ u ''tulo'')))
     @ u ''</h3>\<newline>                    <p>''
     @ py_str (dict_get article (u ''summary'') (PStr (u ''Sin resumen'')))
     @ u ''</p>\<newline>                ''
     @ (case map_of article (u ''relevance'') of
          None \<Rightarrow> []
        | Some r \<Rightarrow> u ''<p><strong>Relevancia:</strong> '' @ py_str r @ u ''</p>'')
     @ u ''\<newline>                    <p>Fuente: ''
     @ py_str (dict_get article (u ''source'') (PStr (u ''Desconocida'')))
     @ u '' - \<newline>                    <a href='' @ [34]
     @ py_str (dict_get article (u ''url'') (PStr (u ''#'')))
     @ [34] @ u '' target='' @ [34] @ u ''_blank'' @ [34] @ u ''>Leer m'' @ [225]
     @ u ''s</a></p>\<newline>                </div>\<newline>                ''"

definition html_topic :: "topic_data \<Rightarrow> pystr" where
  "html_topic t =
     u ''\<newline>            <h2>'' @ td_name t
     @ u ''</h2>\<newline>            <p><em>'' @ py_str (td_summary t)
     @ u ''</em></p>\<newline>            ''
     @ concat (map html_article (td_articles t))"

definition generate_simple_html :: "template_data \<Rightarrow> pystr" where
  "generate_simple_html data =
     u ''\<newline>        <!DOCTYPE html>\<newline>        <html>\<newline>        <head>\<newline>            <title>''
     @ tpl_newsletter_title data
     @ u ''</title>\<newline>        </head>\<newline>        <body style='' @ [34]
     @ u ''font-family: Arial, sans-serif; max-width: 800px; margin: 0 auto; padding: 20px;''
     @ [34] @ u ''>\<newline>            <h1>''
     @ tpl_newsletter_title data
     @ u ''</h1>\<newline>            <p>'' @ tpl_date data
     @ u ''</p>\<newline>            <p>Hola '' @ py_str (tpl_user_name data)
     @ u '',</p>\<newline>            <p>'' @ tpl_introduction data
     @ u ''</p>\<newline>        ''
     @ concat (map html_topic (tpl_topics data))
     @ u ''\<newline>            <p style='' @ [34]
     @ u ''margin-top: 30px; padding-top: 10px; border-top: 1px solid #eee;'' @ [34]
     @ u ''>\<newline>                '' @ [161]
     @ u ''Gracias por leer tu newsletter personalizado!<br>\<newline>''
     @ u ''                Recibe este resumen diariamente seg'' @ [250]
     @ u ''n tus intereses.\<newline>            </p>\<newline>        </body>\<newline>        </html>\<newline>        ''"

definition topic_entry :: "pystr \<times> topic_result \<Rightarrow> topic_data" where
  "topic_entry p =
     \<lparr>td_name = fst p,
      td_summary = (case bundle_summary (snd p) of None \<Rightarrow> PStr [] | Some s \<Rightarrow> s),
      td_articles = (case bundle_articles (snd p) of None \<Rightarrow> [] | Some as \<Rightarrow> as)\<rparr>"

text \<open>
  The newsletter is the dictionary with the keys html, text, title and subject. The
  template directory and the default template file that \<open>__init__\<close> creates belong to
  the template engine.
\<close>

definition format_newsletter ::
  "gen_oracle \<Rightarrow> clock_oracle \<Rightarrow> template_oracle \<Rightarrow> (pystr \<Rightarrow> pystr) \<Rightarrow> pystr
   \<Rightarrow> pyval pydict \<Rightarrow> topic_result pydict \<Rightarrow> trace \<Rightarrow> pystr pydict \<times> trace" where
  "format_newsletter gen clock render upper template_name user_data summarized_news tr =
     (let user_name = dict_get user_data (u ''name'') (PStr (u ''Usuario''))
      in case generate_title gen user_name (map fst summarized_news) tr of
           (newsletter_title, tr1) \<Rightarrow>
      case generate_introduction gen user_name (map fst summarized_news) tr1 of
           (introduction, tr2) \<Rightarrow>
      case get_formatted_date clock tr2 of
           (date, tr3) \<Rightarrow>
      let template_data =
            \<lparr>tpl_user_name = user_name, tpl_newsletter_title = newsletter_title,
             tpl_introduction = introduction, tpl_topics = map topic_entry summarized_news,
             tpl_date = date\<rparr>;
          html_content =
            (case render tr3 template_name template_data of
               Some html \<Rightarrow> html
             | None \<Rightarrow> generate_simple_html template_data);
          text_content = generate_text_version upper template_data
      in case get_formatted_date clock (tr3 @ [TemplateRender template_name]) of
           (date2, tr5) \<Rightarrow>
             ([(u ''html'', html_content), (u ''text'', text_content),
               (u ''title'', newsletter_title),
               (u ''subject'', newsletter_title @ u '' - '' @ date2)], tr5))"

section \<open>SenderAgent\<close>

record config =
  EMAIL_HOST :: "pystr option"
  EMAIL_PORT :: int
  EMAIL_USERNAME :: "pystr option"
  EMAIL_PASSWORD :: "pystr option"
  EMAIL_FROM :: "pystr option"

record mime_message =
  msg_subject :: pystr
  msg_from :: "pystr option"
  msg_to :: pyval
  msg_parts :: "(pystr \<times> pystr) list"

text \<open>The result dictionary of a delivery; recipient and subject are keys some results lack.\<close>

record outcome =
  out_success :: bool
  out_message :: pystr
  out_channel :: pystr
  out_recipient :: "pyval option"
  out_subject :: "header_value option"

type_synonym smtp_oracle = "trace \<Rightarrow> config \<Rightarrow> mime_message \<Rightarrow> pystr option"

text \<open>
  A channel implementation takes the recipient and the newsletter, the string-valued
  dictionary \<open>format_newsletter\<close> builds, and returns an outcome or raises an
  exception.
\<close>

type_synonym channel_impl = "pyval pydict \<Rightarrow> pystr pydict \<Rightarrow> trace \<Rightarrow> (exn + outcome) \<times> trace"

text \<open>\<open>all([EMAIL_HOST, EMAIL_PORT, EMAIL_USERNAME, EMAIL_PASSWORD])\<close>.\<close>

definition configured :: "pystr option \<Rightarrow> bool" where
  "configured v = (case v of None \<Rightarrow> False | Some s \<Rightarrow> s \<noteq> [])"

definition all_credentials :: "config \<Rightarrow> bool" where
  "all_credentials cfg =
     (configured (EMAIL_HOST cfg) \<and> EMAIL_PORT cfg \<noteq> 0
      \<and> configured (EMAIL_USERNAME cfg) \<and> configured (EMAIL_PASSWORD cfg))"

text \<open>
  \<open>_send_by_email\<close>. Both bodies are encoded by \<open>MIMEText\<close> before the \<open>try\<close> and before
  the credentials are looked at; the subject is read back from the message for the log
  line of the simulated delivery and for the result. An exception of any of these steps
  and of the transport leaves the function.
\<close>

definition send_by_email :: "config \<Rightarrow> smtp_oracle \<Rightarrow> channel_impl" where
  "send_by_email cfg smtp user_data newsletter_data tr =
     (let email = dict_get user_data (u ''email'') PNone
      in if \<not> truthy email
         then (Inr \<lparr>out_success = False,
                    out_message = u ''No se proporcion'' @ [243] @ u '' direcci'' @ [243]
                                  @ u ''n de correo electr'' @ [243] @ u ''nico'',
                    out_channel = u ''email'', out_recipient = None, out_subject = None\<rparr>, tr)
         else
           (let text_content = dict_get newsletter_data (u ''text'') [];
                html_content = dict_get newsletter_data (u ''html'') [];
                msg = \<lparr>msg_subject =
                         dict_get newsletter_data (u ''subject'') (u ''Tu Newsletter Personalizado''),
                       msg_from = EMAIL_FROM cfg, msg_to = email,
                       msg_parts =
                         (if text_content \<noteq> [] then [(u ''plain'', text_content)] else [])
                         @ (if html_content \<noteq> [] then [(u ''html'', html_content)] else [])\<rparr>
            in if \<not> mime_encodable text_content
               then (Inl (UnicodeEncodeError text_content), tr)
               else if \<not> mime_encodable html_content
               then (Inl (UnicodeEncodeError html_content), tr)
               else if \<not> all_credentials cfg
               then (case read_header (msg_subject msg) of
                       Inl ex \<Rightarrow> Inl ex
                     | Inr subject \<Rightarrow>
                         Inr \<lparr>out_success = True,
                              out_message = u ''Simulaci'' @ [243] @ u ''n de env'' @ [237]
                                            @ u ''o exitosa (modo desarrollo)'',
                              out_channel = u ''email'', out_recipient = Some email,
                              out_subject = Some subject\<rparr>,
                     tr)
               else (case smtp tr cfg msg of
                       Some e \<Rightarrow> Inl (Raised e)
                     | None \<Rightarrow>
                         (case read_header (msg_subject msg) of
                            Inl ex \<Rightarrow> Inl ex
                          | Inr subject \<Rightarrow>
                              Inr \<lparr>out_success = True,
                                   out_message = u ''Newsletter enviado exitosamente'',
                                   out_channel = u ''email'', out_recipient = Some email,
                                   out_subject = Some subject\<rparr>),
                     tr @ [SmtpSession])))"

definition send_by_whatsapp_dummy :: channel_impl where
  "send_by_whatsapp_dummy user_data newsletter_data tr =
     (let phone = dict_get user_data (u ''phone'') PNone
      in if \<not> truthy phone
         then (Inr \<lparr>out_success = False,
                    out_message = u ''No se proporcion'' @ [243] @ u '' n'' @ [250]
                                  @ u ''mero de tel'' @ [233] @ u ''fono'',
                    out_channel = u ''whatsapp'', out_recipient = None, out_subject = None\<rparr>, tr)
         else (Inr \<lparr>out_success = True,
                    out_message = u ''Simulaci'' @ [243] @ u ''n de env'' @ [237]
                                  @ u ''o por WhatsApp exitosa'',
                    out_channel = u ''whatsapp'', out_recipient = Some phone,
                    out_subject = None\<rparr>, tr))"

definition send_by_telegram_dummy :: channel_impl where
  "send_by_telegram_dummy user_data newsletter_data tr =
     (let telegram_id = dict_get user_data (u ''telegram_id'') PNone
      in if \<not> truthy telegram_id
         then (Inr \<lparr>out_success = False,
                    out_message = u ''No se proporcion'' @ [243] @ u '' ID de Telegram'',
                    out_channel = u ''telegram'', out_recipient = None, out_subject = None\<rparr>, tr)
         else (Inr \<lparr>out_success = True,
                    out_message = u ''Simulaci'' @ [243] @ u ''n de env'' @ [237]
                                  @ u ''o por Telegram exitosa'',
                    out_channel = u ''telegram'', out_recipient = Some telegram_id,
                    out_subject = None\<rparr>, tr))"

text \<open>\<open>self.channels\<close> as \<open>__init__\<close> fills it.\<close>

definition sender_channels :: "config \<Rightarrow> smtp_oracle \<Rightarrow> channel_impl pydict" where
  "sender_channels cfg smtp =
     [(u ''email'', send_by_email cfg smtp),
      (u ''whatsapp'', send_by_whatsapp_dummy),
      (u ''telegram'', send_by_telegram_dummy)]"

text \<open>\<open>str_of\<close> is \<open>str(e)\<close>, Python's text of an exception.\<close>

definition send_newsletter ::
  "(exn \<Rightarrow> pystr) \<Rightarrow> channel_impl pydict \<Rightarrow> pyval pydict \<Rightarrow> pystr pydict \<Rightarrow> pystr \<Rightarrow> trace
   \<Rightarrow> outcome \<times> trace" where
  "send_newsletter str_of channels user_data newsletter_data channel tr =
     (case map_of channels channel of
        None \<Rightarrow>
          (\<lparr>out_success = False, out_message = u ''Canal no soportado: '' @ channel,
            out_channel = channel, out_recipient = None, out_subject = None\<rparr>, tr)
      | Some impl \<Rightarrow>
          (case impl user_data newsletter_data tr of
             (Inr result, tr') \<Rightarrow> (result, tr')
           | (Inl e, tr') \<Rightarrow>
               (\<lparr>out_success = False, out_message = u ''Error al enviar: '' @ str_of e,
                 out_channel = channel, out_recipient = None, out_subject = None\<rparr>, tr')))"

section \<open>The pipeline on placeholder data\<close>

record env =
  env_gen :: gen_oracle
  env_search :: search_oracle
  env_clock :: clock_oracle
  env_render :: template_oracle
  env_smtp :: smtp_oracle

record run_result =
  run_success :: bool
  run_message :: pystr
  run_user_id :: pystr
  run_channel :: pystr
  run_topics :: "pystr list"
  run_newsletter_title :: pystr

definition mock_user_data :: "pystr \<Rightarrow> pyval pydict" where
  "mock_user_data user_id =
     [(u ''id'', PStr user_id), (u ''name'', PStr (u ''Usuario de Prueba'')),
      (u ''email'', PStr (u ''test@example.com'')), (u ''phone'', PStr (u ''+1234567890'')),
      (u ''telegram_id'', PStr (u ''12345678''))]"

definition mock_topics :: "topic list" where
  "mock_topics =
     [\<lparr>topic_name = u ''Inteligencia Artificial'',
       topic_description = Some (PStr (u ''Avances en IA y machine learning''))\<rparr>,
      \<lparr>topic_name = u ''Cambio Clim'' @ [225] @ u ''tico'',
       topic_description =
         Some (PStr (u ''Noticias sobre el medio ambiente y cambio clim'' @ [225] @ u ''tico''))\<rparr>]"

text \<open>
  Steps 1 to 3 of \<open>generate_and_send_newsletter\<close> with \<open>mock_data=True\<close> and the agents'
  default settings: the formatted newsletter that step 4 sends.
\<close>

definition mock_newsletter ::
  "(pystr \<Rightarrow> pystr) \<Rightarrow> env \<Rightarrow> pystr \<Rightarrow> pystr \<Rightarrow> trace \<Rightarrow> (exn + pystr pydict) \<times> trace" where
  "mock_newsletter upper e user_id language tr =
     (case get_news_for_topics (env_gen e) (env_search e) 3 mock_topics language tr of
        (news_results, tr1) \<Rightarrow>
          (case summarize_news_by_topic (env_gen e) 150 True news_results tr1 of
             (Inl ex, tr2) \<Rightarrow> (Inl ex, tr2)
           | (Inr summarized_news, tr2) \<Rightarrow>
               (case format_newsletter (env_gen e) (env_clock e) (env_render e) upper
                       (u ''default_email.html'') (mock_user_data user_id) summarized_news tr2 of
                  (formatted_newsletter, tr3) \<Rightarrow> (Inr formatted_newsletter, tr3))))"

definition generate_and_send_newsletter_mock ::
  "(pystr \<Rightarrow> pystr) \<Rightarrow> (exn \<Rightarrow> pystr) \<Rightarrow> config \<Rightarrow> env \<Rightarrow> pystr \<Rightarrow> pystr \<Rightarrow> pystr \<Rightarrow> trace
   \<Rightarrow> (exn + run_result) \<times> trace" where
  "generate_and_send_newsletter_mock upper str_of cfg e user_id channel language tr =
     (case mock_newsletter upper e user_id language tr of
        (Inl ex, tr3) \<Rightarrow> (Inl ex, tr3)
      | (Inr formatted_newsletter, tr3) \<Rightarrow>
          (case send_newsletter str_of (sender_channels cfg (env_smtp e))
                  (mock_user_data user_id)
                  formatted_newsletter channel tr3 of
             (send_result, tr4) \<Rightarrow>
               (Inr \<lparr>run_success = out_success send_result,
                     run_message = out_message send_result,
                     run_user_id = user_id, run_channel = channel,
                     run_topics = map topic_name mock_topics,
                     run_newsletter_title = dict_get formatted_newsletter (u ''title'') []\<rparr>,
                tr4)))"

section \<open>The response parsing as the specification words it\<close>

text \<open>
  The synopsis read word for word from the specification: the response is split at the
  first relevance marker, and the text before the summary marker, when the part before
  the relevance marker has one, is the synopsis.
\<close>

definition claimed_synopsis :: "pystr \<Rightarrow> pystr" where
  "claimed_synopsis response_text =
     (case partition_first (u ''Relevancia:'') response_text of
        None \<Rightarrow> response_text
      | Some (before, after) \<Rightarrow>
          (case partition_first (u ''Resumen:'') before of
             None \<Rightarrow> before
           | Some (x, y) \<Rightarrow> x))"

section \<open>The news of a topic as the specification words it\<close>

text \<open>
  The answers the search terms of a topic get when each is asked in turn, one request
  per term.
\<close>

fun all_responses :: "search_oracle \<Rightarrow> pystr \<Rightarrow> pystr list \<Rightarrow> trace \<Rightarrow> article list list" where
  "all_responses search language [] tr = []"
| "all_responses search language (q # qs) tr =
     fst (fetch_from_news_api search q language tr)
     # all_responses search language qs (tr @ [SearchCall q language])"

text \<open>
  How many requests are made when \<open>n\<close> items are at hand before the first: the first
  term is always asked, and a further term is asked as long as the items at hand and
  the answers gathered before it are together fewer than the cap.
\<close>

definition queries_issued :: "nat \<Rightarrow> int \<Rightarrow> article list list \<Rightarrow> nat" where
  "queries_issued n cap rs =
     (if rs = [] then 0
      else Suc (length (takeWhile (\<lambda>j. int (n + length (concat (take j rs))) < cap)
                          [1..<length rs])))"

text \<open>
  The items of a topic are the first cap items of the answers in the order of the terms,
  and the requests made are those of the terms asked, in that order.
\<close>

definition spec_topic_news ::
  "search_oracle \<Rightarrow> int \<Rightarrow> pystr \<Rightarrow> pystr list \<Rightarrow> trace \<Rightarrow> article list \<times> trace" where
  "spec_topic_news search cap language terms tr =
     (take (nat cap) (concat (all_responses search language terms tr)),
      tr @ map (\<lambda>q. SearchCall q language)
             (take (queries_issued 0 cap (all_responses search language terms tr)) terms))"

fun spec_get_news ::
  "gen_oracle \<Rightarrow> search_oracle \<Rightarrow> int \<Rightarrow> pystr \<Rightarrow> topic list \<Rightarrow> (article list) pydict \<Rightarrow> trace
   \<Rightarrow> (article list) pydict \<times> trace" where
  "spec_get_news gen search cap language [] results tr = (results, tr)"
| "spec_get_news gen search cap language (t # ts) results tr =
     (case get_search_terms gen (topic_name t)
             (case topic_description t of None \<Rightarrow> PStr [] | Some d \<Rightarrow> d) tr of
        (search_terms, tr1) \<Rightarrow>
          (case spec_topic_news search cap language search_terms tr1 of
             (news_items, tr2) \<Rightarrow>
               spec_get_news gen search cap language ts
                 (AList.update (topic_name t) news_items results) tr2))"

section \<open>Concrete runs\<close>

text \<open>
  \<open>str.upper\<close> on the strings of ASCII and Latin-1 characters other than the micro
  sign, the sharp s and the y with diaeresis, the placeholder topic names among them;
  for the concrete runs below.
\<close>

definition upper_basic :: "pystr \<Rightarrow> pystr" where
  "upper_basic s =
     map (\<lambda>c. if (97 \<le> c \<and> c \<le> 122) \<or> (224 \<le> c \<and> c \<le> 254 \<and> c \<noteq> 247)
              then c - 32 else c) s"

text \<open>
  Two environments for the placeholder run: every generation and every search call
  fails, the template engine raises, and the day differs.
\<close>

definition day_one :: env where
  "day_one = \<lparr>env_gen = (\<lambda>tr req. None), env_search = (\<lambda>tr query language. None),
               env_clock = (\<lambda>tr. u ''03 de November de 2026''),
               env_render = (\<lambda>tr name data. None), env_smtp = (\<lambda>tr cfg msg. None)\<rparr>"



section \<open>First occurrences\<close>

lemma partition_first_Some:
  "partition_first sep s = Some (a, b) \<Longrightarrow> s = a @ sep @ b"
proof (induction s arbitrary: a)
  case Nil
  then show ?case by (simp split: if_splits)
next
  case (Cons c cs)
  show ?case
  proof (cases "take (length sep) (c # cs) = sep")
    case True
    with Cons.prems have "a = []" "b = drop (length sep) (c # cs)" by simp_all
    with True show ?thesis by (metis append_Nil append_take_drop_id)
  next
    case False
    with Cons.prems obtain a' where "partition_first sep cs = Some (a', b)" "a = c # a'"
      by (auto split: option.splits)
    with Cons.IH show ?thesis by simp
  qed
qed

lemma partition_first_first:
  "partition_first sep s = Some (a, b) \<Longrightarrow> s = a' @ sep @ b' \<Longrightarrow> length a \<le> length a'"
proof (induction s arbitrary: a a')
  case Nil
  then show ?case by (simp split: if_splits)
next
  case (Cons c cs)
  show ?case
  proof (cases "take (length sep) (c # cs) = sep")
    case True
    with Cons.prems(1) have "a = []" by simp
    then show ?thesis by simp
  next
    case False
    with Cons.prems(1) obtain a0 where a0: "partition_first sep cs = Some (a0, b)" "a = c # a0"
      by (auto split: option.splits)
    have "a' \<noteq> []"
    proof
      assume "a' = []"
      with Cons.prems(2) have "c # cs = sep @ b'" by simp
      then have "take (length sep) (c # cs) = sep" by simp
      with False show False by simp
    qed
    then obtain a1 where a1: "a' = c # a1" using Cons.prems(2) by (cases a') auto
    with Cons.prems(2) have "cs = a1 @ sep @ b'" by simp
    from Cons.IH[OF a0(1) this] a0 a1 show ?thesis by simp
  qed
qed

lemma partition_first_None:
  "partition_first sep s = None \<Longrightarrow> s \<noteq> a @ sep @ b"
proof (induction s arbitrary: a)
  case Nil
  then show ?case by (auto split: if_splits)
next
  case (Cons c cs)
  from Cons.prems have ntk: "take (length sep) (c # cs) \<noteq> sep" and rest: "partition_first sep cs = None"
    by (auto split: if_splits option.splits)
  show ?case
  proof
    assume eq: "c # cs = a @ sep @ b"
    show False
    proof (cases a)
      case Nil
      with eq ntk show False by auto
    next
      case (Cons x a1)
      with eq have "cs = a1 @ sep @ b" by simp
      with Cons.IH[OF rest] show False by blast
    qed
  qed
qed

section \<open>Parsing a generation answer\<close>

lemma py_split1_None: "partition_first sep s = None \<Longrightarrow> py_split1 sep s = [s]"
  by (simp add: py_split1_def)

lemma py_split1_Some: "partition_first sep s = Some (a, b) \<Longrightarrow> py_split1 sep s = [a, b]"
  by (simp add: py_split1_def)

lemma parse_response_no_marker:
  "partition_first (u ''Relevancia:'') r = None \<Longrightarrow> parse_response True r = (r, [])"
  by (simp add: parse_response_def py_split1_None)

lemma parse_response_marker:
  "partition_first (u ''Relevancia:'') r = Some (before, after) \<Longrightarrow>
   parse_response True r =
     (py_strip (case partition_first (u ''Resumen:'') before of None \<Rightarrow> before | Some (x, y) \<Rightarrow> y),
      py_strip after)"
  by (cases "partition_first (u ''Resumen:'') before")
     (auto simp add: parse_response_def py_split1_Some py_split1_None py_contains_def Let_def
           simp del: partition_first.simps)


lemma summarize_article_answer:
  assumes "gen tr (article_prompt n article topic incl) = Some content"
  shows "fst (summarize_article gen n article topic incl tr)
         = Inr (if snd (parse_response incl (py_strip content)) \<noteq> []
                then AList.update (u ''relevance'')
                       (PStr (snd (parse_response incl (py_strip content))))
                       (AList.update (u ''summary'')
                          (PStr (fst (parse_response incl (py_strip content)))) article)
                else AList.update (u ''summary'')
                       (PStr (fst (parse_response incl (py_strip content)))) article)"
  using assms by (simp add: summarize_article_def Let_def split: prod.splits)

text \<open>
  Claim C2, as the code has it. When relevance annotation is on and the generation call
  for an item answers, the item is returned, and the answer is trimmed and split at the
  first relevance marker. With no marker the whole trimmed answer is the synopsis and
  nothing else of the item changes. With a marker, the note is the trimmed text after it
  (an empty one is not written, so the item keeps what it had under that key), and the
  synopsis is the trimmed text between the first summary marker of the part before the
  relevance marker, or the start of the answer when that part has none, and the
  relevance marker.
\<close>

theorem summarize_article_parse:
  assumes "gen tr (article_prompt n article topic True) = Some content"
  shows "\<exists>art. fst (summarize_article gen n article topic True tr) = Inr art \<and>
         (case partition_first (u ''Relevancia:'') (py_strip content) of
           None \<Rightarrow>
             (\<forall>a b. py_strip content \<noteq> a @ u ''Relevancia:'' @ b)
             \<and> art = AList.update (u ''summary'') (PStr (py_strip content)) article
         | Some (before, after) \<Rightarrow>
             py_strip content = before @ u ''Relevancia:'' @ after
             \<and> (\<forall>a b. py_strip content = a @ u ''Relevancia:'' @ b \<longrightarrow> length before \<le> length a)
             \<and> map_of art (u ''relevance'')
                 = (if py_strip after = [] then map_of article (u ''relevance'')
                    else Some (PStr (py_strip after)))
             \<and> (case partition_first (u ''Resumen:'') before of
                   None \<Rightarrow>
                     (\<forall>a b. before \<noteq> a @ u ''Resumen:'' @ b)
                     \<and> map_of art (u ''summary'') = Some (PStr (py_strip before))
                 | Some (x, y) \<Rightarrow>
                     before = x @ u ''Resumen:'' @ y
                     \<and> (\<forall>a b. before = a @ u ''Resumen:'' @ b \<longrightarrow> length x \<le> length a)
                     \<and> map_of art (u ''summary'') = Some (PStr (py_strip y))))"
proof -
  obtain art where art: "fst (summarize_article gen n article topic True tr) = Inr art"
    and art_eq: "art = (if snd (parse_response True (py_strip content)) \<noteq> []
                then AList.update (u ''relevance'')
                       (PStr (snd (parse_response True (py_strip content))))
                       (AList.update (u ''summary'')
                          (PStr (fst (parse_response True (py_strip content)))) article)
                else AList.update (u ''summary'')
                       (PStr (fst (parse_response True (py_strip content)))) article)"
    using summarize_article_answer[where gen=gen and tr=tr, OF assms] by blast
  have "case partition_first (u ''Relevancia:'') (py_strip content) of
           None \<Rightarrow>
             (\<forall>a b. py_strip content \<noteq> a @ u ''Relevancia:'' @ b)
             \<and> art = AList.update (u ''summary'') (PStr (py_strip content)) article
         | Some (before, after) \<Rightarrow>
             py_strip content = before @ u ''Relevancia:'' @ after
             \<and> (\<forall>a b. py_strip content = a @ u ''Relevancia:'' @ b \<longrightarrow> length before \<le> length a)
             \<and> map_of art (u ''relevance'')
                 = (if py_strip after = [] then map_of article (u ''relevance'')
                    else Some (PStr (py_strip after)))
             \<and> (case partition_first (u ''Resumen:'') before of
                   None \<Rightarrow>
                     (\<forall>a b. before \<noteq> a @ u ''Resumen:'' @ b)
                     \<and> map_of art (u ''summary'') = Some (PStr (py_strip before))
                 | Some (x, y) \<Rightarrow>
                     before = x @ u ''Resumen:'' @ y
                     \<and> (\<forall>a b. before = a @ u ''Resumen:'' @ b \<longrightarrow> length x \<le> length a)
                     \<and> map_of art (u ''summary'') = Some (PStr (py_strip y)))"
  proof (cases "partition_first (u ''Relevancia:'') (py_strip content)")
    case None
    from partition_first_None[OF None]
    have "\<forall>a b. py_strip content \<noteq> a @ u ''Relevancia:'' @ b" by blast
    moreover have "art = AList.update (u ''summary'') (PStr (py_strip content)) article"
      using art_eq parse_response_no_marker[OF None] by simp
    ultimately show ?thesis using None by simp
  next
    case (Some p)
    obtain before after where p: "p = (before, after)" by (cases p)
    note pf = Some[unfolded p]
    note pr = parse_response_marker[OF pf]
    have dec: "py_strip content = before @ u ''Relevancia:'' @ after"
      by (rule partition_first_Some[OF pf])
    have fst1: "\<forall>a b. py_strip content = a @ u ''Relevancia:'' @ b \<longrightarrow> length before \<le> length a"
      using partition_first_first[OF pf] by blast
    have rel: "map_of art (u ''relevance'')
        = (if py_strip after = [] then map_of article (u ''relevance'')
           else Some (PStr (py_strip after)))"
      using art_eq pr by (simp add: update_conv')
    have sm: "map_of art (u ''summary'')
        = Some (PStr (py_strip (case partition_first (u ''Resumen:'') before of
                                  None \<Rightarrow> before | Some (x, y) \<Rightarrow> y)))"
      using art_eq pr by (simp add: update_conv')
    have inner: "case partition_first (u ''Resumen:'') before of
                     None \<Rightarrow>
                       (\<forall>a b. before \<noteq> a @ u ''Resumen:'' @ b)
                       \<and> map_of art (u ''summary'') = Some (PStr (py_strip before))
                   | Some (x, y) \<Rightarrow>
                       before = x @ u ''Resumen:'' @ y
                       \<and> (\<forall>a b. before = a @ u ''Resumen:'' @ b \<longrightarrow> length x \<le> length a)
                       \<and> map_of art (u ''summary'') = Some (PStr (py_strip y))"
    proof (cases "partition_first (u ''Resumen:'') before")
      case None
      from partition_first_None[OF None] sm None show ?thesis by auto
    next
      case (Some q)
      obtain x y where q: "q = (x, y)" by (cases q)
      note qf = Some[unfolded q]
      from partition_first_Some[OF qf] partition_first_first[OF qf] sm qf
      show ?thesis by auto
    qed
    from dec fst1 rel inner pf show ?thesis by simp
  qed
  with art show ?thesis by blast
qed

theorem summarize_article_parse_witness:
  "\<exists>art. fst (summarize_article (\<lambda>tr req. Some (u '' Resumen: A Relevancia: B ''))
                 150 [(u ''title'', PStr (u ''T''))] (u ''AI'') True []) = Inr art
         \<and> map_of art (u ''summary'') = Some (PStr (u ''A''))
         \<and> map_of art (u ''relevance'') = Some (PStr (u ''B''))"
proof -
  from summarize_article_parse
         [where gen = "\<lambda>tr req. Some (u '' Resumen: A Relevancia: B '')" and tr = "[]"
            and n = 150 and article = "[(u ''title'', PStr (u ''T''))]" and topic = "u ''AI''"
            and content = "u '' Resumen: A Relevancia: B ''"]
  obtain art where art:
    "fst (summarize_article (\<lambda>tr req. Some (u '' Resumen: A Relevancia: B ''))
            150 [(u ''title'', PStr (u ''T''))] (u ''AI'') True []) = Inr art"
    "map_of art (u ''summary'') = Some (PStr (u ''A''))"
    "map_of art (u ''relevance'') = Some (PStr (u ''B''))"
    by (auto simp add: py_strip_def py_isspace_def)
  then show ?thesis by blast
qed

text \<open>
  On the answer \<open>Resumen: A Relevancia: B\<close> the synopsis of the code is \<open>A\<close>, the text
  after the summary marker; the text before that marker is empty.
\<close>

theorem synopsis_before_summary_marker_counterexample:
  "(\<exists>art. fst (summarize_article (\<lambda>tr req. Some (u ''Resumen: A Relevancia: B''))
                  150 [] (u ''AI'') True []) = Inr art
          \<and> map_of art (u ''summary'') = Some (PStr (u ''A''))
          \<and> map_of art (u ''summary'')
              \<noteq> Some (PStr (claimed_synopsis (u ''Resumen: A Relevancia: B''))))
   \<and> claimed_synopsis (u ''Resumen: A Relevancia: B'') = []"
  by (simp add: summarize_article_def parse_response_def py_split1_def py_contains_def
        claimed_synopsis_def py_strip_def py_isspace_def Let_def)

section \<open>A failed generation call for an item\<close>

lemma summarize_article_failure:
  assumes "gen tr (article_prompt n article topic include_relevance) = None"
  shows "fst (summarize_article gen n article topic include_relevance tr)
         = (if \<not> printable (py_str (dict_get article (u ''title'') (PStr [])))
            then Inl (UnicodeEncodeError (py_str (dict_get article (u ''title'') (PStr []))))
            else Inr (let summarized_article =
                            AList.update (u ''summary'')
                              (if truthy (dict_get article (u ''description'') (PStr []))
                               then dict_get article (u ''description'') (PStr [])
                               else PStr (u ''Resumen no disponible.'')) article
                      in if include_relevance
                         then AList.update (u ''relevance'')
                                (PStr (u ''Informaci'' @ [243] @ u ''n no disponible.''))
                                summarized_article
                         else summarized_article))"
  using assms by (simp add: summarize_article_def Let_def)

lemma summarize_article_fallback:
  assumes "gen tr (article_prompt n article topic include_relevance) = None"
    and "printable (py_str (dict_get article (u ''title'') (PStr [])))"
  shows "\<exists>art. fst (summarize_article gen n article topic include_relevance tr) = Inr art
         \<and> map_of art (u ''summary'')
           = Some (case map_of article (u ''description'') of
                     Some (PStr d) \<Rightarrow>
                       if d = [] then PStr (u ''Resumen no disponible.'') else PStr d
                   | Some PNone \<Rightarrow> PStr (u ''Resumen no disponible.'')
                   | None \<Rightarrow> PStr (u ''Resumen no disponible.''))
         \<and> (include_relevance \<longrightarrow>
              map_of art (u ''relevance'')
              = Some (PStr (u ''Informaci'' @ [243] @ u ''n no disponible.'')))"
  unfolding summarize_article_failure[where gen=gen and tr=tr, OF assms(1)]
  using assms(2)
  by (simp add: Let_def update_conv' dict_get_def split: option.splits pyval.splits)

text \<open>
  Claim C4 at an item whose title holds a lone surrogate: the generation call fails, the
  handler prints the title first, the \<open>print\<close> raises, and no condensed item is returned.
\<close>

theorem summarize_article_raises_on_unprintable_title:
  "summarize_article (\<lambda>tr req. None) 150
     [(u ''title'', PStr [55296]), (u ''description'', PStr (u ''D''))] (u ''AI'') True []
   = (Inl (UnicodeEncodeError [55296]),
      [GenCall (article_prompt 150
         [(u ''title'', PStr [55296]), (u ''description'', PStr (u ''D''))] (u ''AI'') True)])"
  by (simp add: summarize_article_def Let_def dict_get_def printable_def surrogate_def)

section \<open>What summarizing an item leaves alone\<close>

text \<open>
  Claim C9. Whatever the generation capability does, an item that is returned reads as
  the original item under every key other than summary and relevance: no other field is
  changed, added or removed. No item is returned only when the generation call fails and
  the title cannot be printed.
\<close>

theorem summarize_article_frame:
  "case fst (summarize_article gen n article topic incl tr) of
     Inr art \<Rightarrow>
       (\<forall>k. k \<noteq> u ''summary'' \<longrightarrow> k \<noteq> u ''relevance'' \<longrightarrow> map_of art k = map_of article k)
   | Inl ex \<Rightarrow>
       gen tr (article_prompt n article topic incl) = None
       \<and> \<not> printable (py_str (dict_get article (u ''title'') (PStr [])))"
  by (simp add: summarize_article_def Let_def update_conv' split: option.splits prod.splits)

theorem summarize_article_frame_witness:
  "(\<exists>art. fst (summarize_article (\<lambda>tr req. Some (u ''Resumen: A Relevancia: B'')) 150
                  [(u ''title'', PStr (u ''T'')), (u ''url'', PNone)] (u ''AI'') True []) = Inr art
          \<and> map_of art (u ''url'') = Some PNone)
   \<and> (\<exists>art. fst (summarize_article (\<lambda>tr req. None) 150
                  [(u ''title'', PStr (u ''T'')), (u ''url'', PNone)] (u ''AI'') True []) = Inr art
          \<and> map_of art (u ''source'') = None \<and> map_of art (u ''title'') = Some (PStr (u ''T'')))"
  using summarize_article_frame
          [where gen = "\<lambda>tr req. Some (u ''Resumen: A Relevancia: B'')" and n = 150
             and article = "[(u ''title'', PStr (u ''T'')), (u ''url'', PNone)]"
             and topic = "u ''AI''" and incl = True and tr = "[]"]
        summarize_article_frame
          [where gen = "\<lambda>tr req. None" and n = 150
             and article = "[(u ''title'', PStr (u ''T'')), (u ''url'', PNone)]"
             and topic = "u ''AI''" and incl = True and tr = "[]"]
  by (auto simp add: dict_get_def printable_def surrogate_def split: sum.splits)

section \<open>SenderAgent: unknown channels\<close>

text \<open>
  Claim C6. A channel name that is none of email, whatsapp and telegram gives the failed
  outcome that carries the name, whatever is registered under the three names, and the
  trace of calls stays as it was: no channel implementation runs and no transport session
  is opened.
\<close>

theorem unknown_channel_fails:
  assumes "channel \<noteq> u ''email''" and "channel \<noteq> u ''whatsapp''" and "channel \<noteq> u ''telegram''"
  shows "send_newsletter str_of
           [(u ''email'', impl_e), (u ''whatsapp'', impl_w), (u ''telegram'', impl_t)]
           user_data newsletter_data channel tr
         = (\<lparr>out_success = False, out_message = u ''Canal no soportado: '' @ channel,
             out_channel = channel, out_recipient = None, out_subject = None\<rparr>, tr)
       \<and> send_newsletter str_of (sender_channels cfg smtp) user_data newsletter_data channel tr
         = (\<lparr>out_success = False, out_message = u ''Canal no soportado: '' @ channel,
             out_channel = channel, out_recipient = None, out_subject = None\<rparr>, tr)"
  using assms by (simp add: send_newsletter_def sender_channels_def)

theorem unknown_channel_fails_witness:
  "send_newsletter (\<lambda>ex. [])
     (sender_channels
        \<lparr>EMAIL_HOST = None, EMAIL_PORT = 587, EMAIL_USERNAME = None, EMAIL_PASSWORD = None,
         EMAIL_FROM = None\<rparr> (\<lambda>tr c m. None))
     [] [] (u ''fax'') []
   = (\<lparr>out_success = False, out_message = u ''Canal no soportado: fax'',
       out_channel = u ''fax'', out_recipient = None, out_subject = None\<rparr>, [])"
  using unknown_channel_fails
          [where channel = "u ''fax''" and str_of = "\<lambda>ex. []"
             and impl_e = "\<lambda>ud nd tr. (Inl TypeError, tr)"
             and impl_w = "\<lambda>ud nd tr. (Inl TypeError, tr)"
             and impl_t = "\<lambda>ud nd tr. (Inl TypeError, tr)"
             and user_data = "[]" and newsletter_data = "[]" and tr = "[]"
             and cfg = "\<lparr>EMAIL_HOST = None, EMAIL_PORT = 587, EMAIL_USERNAME = None,
                          EMAIL_PASSWORD = None, EMAIL_FROM = None\<rparr>"
             and smtp = "\<lambda>tr c m. None"]
  by simp

section \<open>SenderAgent: mail without credentials\<close>

text \<open>
  Claim C7, as the code has it. For a recipient with a mail address, when host, port,
  user name and password are not all configured, the mail channel opens no transport
  session for any newsletter: the trace stays as it was. For a newsletter whose two
  bodies \<open>MIMEText\<close> can encode and whose subject can be read back from the message, it
  returns the successful outcome whose message says the delivery was simulated,
  whatever the transport would do.
\<close>

theorem email_simulated_without_credentials:
  assumes "map_of user_data (u ''email'') = Some (PStr address)" and "address \<noteq> []"
    and "\<not> all_credentials cfg"
  shows "snd (send_by_email cfg smtp user_data newsletter_data tr) = tr
         \<and> (mime_encodable (dict_get newsletter_data (u ''text'') [])
            \<and> mime_encodable (dict_get newsletter_data (u ''html'') [])
            \<and> read_header (dict_get newsletter_data (u ''subject'')
                             (u ''Tu Newsletter Personalizado'')) = Inr subject
            \<longrightarrow> fst (send_by_email cfg smtp user_data newsletter_data tr)
                = Inr \<lparr>out_success = True,
                       out_message = u ''Simulaci'' @ [243] @ u ''n de env'' @ [237]
                                     @ u ''o exitosa (modo desarrollo)'',
                       out_channel = u ''email'', out_recipient = Some (PStr address),
                       out_subject = Some subject\<rparr>)"
  using assms by (simp add: send_by_email_def dict_get_def Let_def split: sum.splits)

theorem email_simulated_without_credentials_witness:
  "send_by_email
     \<lparr>EMAIL_HOST = None, EMAIL_PORT = 587, EMAIL_USERNAME = None, EMAIL_PASSWORD = None,
      EMAIL_FROM = None\<rparr> (\<lambda>tr c m. Some (u ''unreachable''))
     [(u ''name'', PStr (u ''Ana'')), (u ''email'', PStr (u ''ana@example.com''))]
     [(u ''text'', u ''Hola''), (u ''subject'', u ''S'')] []
   = (Inr \<lparr>out_success = True,
           out_message = u ''Simulaci'' @ [243] @ u ''n de env'' @ [237]
                         @ u ''o exitosa (modo desarrollo)'',
           out_channel = u ''email'', out_recipient = Some (PStr (u ''ana@example.com'')),
           out_subject = Some (HeaderStr (u ''S''))\<rparr>, [])"
  using email_simulated_without_credentials
          [where user_data = "[(u ''name'', PStr (u ''Ana'')),
                               (u ''email'', PStr (u ''ana@example.com''))]"
             and address = "u ''ana@example.com''"
             and cfg = "\<lparr>EMAIL_HOST = None, EMAIL_PORT = 587, EMAIL_USERNAME = None,
                          EMAIL_PASSWORD = None, EMAIL_FROM = None\<rparr>"
             and smtp = "\<lambda>tr c m. Some (u ''unreachable'')"
             and newsletter_data = "[(u ''text'', u ''Hola''), (u ''subject'', u ''S'')]"
             and tr = "[]" and subject = "HeaderStr (u ''S'')"]
  by (simp add: all_credentials_def configured_def dict_get_def mime_encodable_def
        refused_def surrogate_def read_header_def printable_def prod_eq_iff)

text \<open>
  A text body that holds the lone surrogate U+D800 cannot be encoded: \<open>MIMEText\<close> raises
  before the credentials are looked at, and the mail channel returns no outcome.
\<close>

theorem unencodable_body_counterexample:
  "\<not> all_credentials
       \<lparr>EMAIL_HOST = None, EMAIL_PORT = 587, EMAIL_USERNAME = None, EMAIL_PASSWORD = None,
        EMAIL_FROM = None\<rparr>
   \<and> send_by_email
       \<lparr>EMAIL_HOST = None, EMAIL_PORT = 587, EMAIL_USERNAME = None, EMAIL_PASSWORD = None,
        EMAIL_FROM = None\<rparr> (\<lambda>tr c m. None)
       [(u ''email'', PStr (u ''ana@example.com''))]
       [(u ''text'', [55296]), (u ''subject'', u ''S'')] []
     = (Inl (UnicodeEncodeError [55296]), [])"
  by (simp add: all_credentials_def configured_def send_by_email_def dict_get_def Let_def
        mime_encodable_def refused_def surrogate_def escapable_def)

section \<open>FormatterAgent: the two bodies\<close>






section \<open>NewsFetcherAgent: the cap per topic\<close>

lemma fetch_from_news_api_trace:
  "snd (fetch_from_news_api search query language tr) = tr @ [SearchCall query language]"
  by (simp add: fetch_from_news_api_def)

lemma accumulate_news_stop:
  assumes "cap \<le> int (length (news_items @ fst (fetch_from_news_api search term language tr)))"
  shows "accumulate_news search cap language (term # terms) news_items tr
         = (py_slice_to cap (news_items @ fst (fetch_from_news_api search term language tr)),
            tr @ [SearchCall term language])"
  using assms fetch_from_news_api_trace[of search "term" language tr]
  by (cases "fetch_from_news_api search term language tr") simp

lemma accumulate_news_continue:
  assumes "int (length (news_items @ fst (fetch_from_news_api search term language tr))) < cap"
  shows "accumulate_news search cap language (term # terms) news_items tr
         = accumulate_news search cap language terms
             (news_items @ fst (fetch_from_news_api search term language tr))
             (tr @ [SearchCall term language])"
  using assms fetch_from_news_api_trace[of search "term" language tr]
  by (cases "fetch_from_news_api search term language tr") simp

lemma length_all_responses:
  "length (all_responses search language terms tr) = length terms"
  by (induction terms arbitrary: tr) simp_all

lemma queries_issued_stop:
  "cap \<le> int (n + length r) \<Longrightarrow> queries_issued n cap (r # rs) = 1"
  by (cases rs) (simp_all add: queries_issued_def upt_conv_Cons del: upt_Suc)

lemma queries_issued_continue:
  assumes "int (n + length r) < cap"
  shows "queries_issued n cap (r # rs) = Suc (queries_issued (n + length r) cap rs)"
proof (cases rs)
  case Nil
  then show ?thesis by (simp add: queries_issued_def)
next
  case (Cons r' rs')
  let ?P = "\<lambda>j. int (n + length (concat (take j (r # rs)))) < cap"
  let ?Q = "\<lambda>j. int (n + length r + length (concat (take j rs))) < cap"
  have upt: "[Suc 0..<Suc (length rs)] = Suc 0 # map Suc [Suc 0..<length rs]"
    using Cons by (simp add: upt_conv_Cons map_Suc_upt del: upt_Suc)
  have p1: "?P (Suc 0)" using assms by simp
  have "queries_issued n cap (r # rs) = Suc (length (takeWhile ?P [Suc 0..<Suc (length rs)]))"
    by (simp add: queries_issued_def del: upt_Suc)
  also have "\<dots> = Suc (Suc (length (takeWhile ?P (map Suc [Suc 0..<length rs]))))"
    unfolding upt using p1 by (simp del: upt_Suc)
  also have "\<dots> = Suc (Suc (length (takeWhile ?Q [Suc 0..<length rs])))"
    by (simp add: takeWhile_map comp_def add.assoc del: upt_Suc)
  also have "\<dots> = Suc (queries_issued (n + length r) cap rs)"
    using Cons by (simp add: queries_issued_def del: upt_Suc)
  finally show ?thesis .
qed

lemma accumulate_news_spec:
  assumes "0 \<le> cap"
  shows "int (length news_items) \<le> cap \<Longrightarrow>
         accumulate_news search cap language terms news_items tr
         = (take (nat cap) (news_items @ concat (all_responses search language terms tr)),
            tr @ map (\<lambda>q. SearchCall q language)
                   (take (queries_issued (length news_items) cap
                            (all_responses search language terms tr)) terms))"
proof (induction terms arbitrary: news_items tr)
  case Nil
  then show ?case by (simp add: queries_issued_def)
next
  case (Cons q qs)
  let ?r = "fst (fetch_from_news_api search q language tr)"
  let ?tr1 = "tr @ [SearchCall q language]"
  let ?rs = "all_responses search language qs ?tr1"
  show ?case
  proof (cases "cap \<le> int (length (news_items @ ?r))")
    case True
    then have k: "queries_issued (length news_items) cap (?r # ?rs) = 1"
      by (simp add: queries_issued_stop)
    from True assms have "nat cap \<le> length (news_items @ ?r)" by simp
    then have t: "take (nat cap) (news_items @ ?r @ concat ?rs) = take (nat cap) (news_items @ ?r)"
      by (metis append.assoc append_Nil2 diff_is_0_eq take_0 take_append)
    from accumulate_news_stop[OF True] assms k t show ?thesis
      by (simp add: py_slice_to_def)
  next
    case False
    then have lt: "int (length (news_items @ ?r)) < cap" by simp
    then have le: "int (length (news_items @ ?r)) \<le> cap" by simp
    from lt have k: "queries_issued (length news_items) cap (?r # ?rs)
                     = Suc (queries_issued (length (news_items @ ?r)) cap ?rs)"
      by (simp add: queries_issued_continue)
    from accumulate_news_continue[OF lt] Cons.IH[OF le, of ?tr1] k show ?thesis
      by simp
  qed
qed

lemma get_news_loop_spec:
  assumes "0 \<le> cap"
  shows "get_news_loop gen search cap language ts results tr
         = spec_get_news gen search cap language ts results tr"
proof (induction ts arbitrary: results tr)
  case Nil
  then show ?case by simp
next
  case (Cons t ts)
  have "accumulate_news search cap language terms [] tr1
        = spec_topic_news search cap language terms tr1" for terms tr1
    using accumulate_news_spec[OF assms, of "[]" search language terms tr1] assms
    by (simp add: spec_topic_news_def)
  with Cons.IH show ?case by (simp split: prod.splits)
qed

lemma spec_get_news_entries:
  assumes "0 \<le> cap"
    and "\<forall>k items. map_of results k = Some items \<longrightarrow> int (length items) \<le> cap"
  shows "(\<forall>k items. map_of (fst (spec_get_news gen search cap language ts results tr)) k = Some items
            \<longrightarrow> int (length items) \<le> cap)
         \<and> dom (map_of (fst (spec_get_news gen search cap language ts results tr)))
             = topic_name ` set ts \<union> dom (map_of results)"
  using assms(2)
proof (induction ts arbitrary: results tr)
  case Nil
  then show ?case by simp
next
  case (Cons t ts)
  obtain search_terms tr1 where st:
    "get_search_terms gen (topic_name t)
       (case topic_description t of None \<Rightarrow> PStr [] | Some d \<Rightarrow> d) tr = (search_terms, tr1)"
    by (cases "get_search_terms gen (topic_name t)
       (case topic_description t of None \<Rightarrow> PStr [] | Some d \<Rightarrow> d) tr")
  obtain news_items tr2 where ac:
    "spec_topic_news search cap language search_terms tr1 = (news_items, tr2)"
    by (cases "spec_topic_news search cap language search_terms tr1")
  have "int (length news_items) \<le> cap"
    using ac assms(1) by (auto simp add: spec_topic_news_def)
  with Cons.prems
  have inv: "\<forall>k items. map_of (AList.update (topic_name t) news_items results) k = Some items
               \<longrightarrow> int (length items) \<le> cap"
    by (simp add: update_conv')
  from Cons.IH[OF inv, of tr2] st ac show ?case
    by (auto simp add: update_conv')
qed

text \<open>
  Claim C5, as the code has it. For a cap that is not negative, \<open>get_news_for_topics\<close>
  returns what the specification of the accumulation says: for every topic in turn, its
  items are the first cap items of the answers to its search terms in the order of the
  terms, and the search requests made are those of the terms asked, a term being asked
  only while fewer than cap items are gathered. Every topic of the input has an entry,
  and its item list has at most cap items.
\<close>

theorem news_items_capped:
  assumes "0 \<le> cap"
  shows "get_news_for_topics gen search cap topics language tr
         = spec_get_news gen search cap language topics [] tr
         \<and> (\<forall>t \<in> set topics.
              \<exists>items. map_of (fst (get_news_for_topics gen search cap topics language tr))
                         (topic_name t) = Some items
                      \<and> int (length items) \<le> cap)"
proof -
  have eq: "get_news_for_topics gen search cap topics language tr
            = spec_get_news gen search cap language topics [] tr"
    by (simp add: get_news_for_topics_def get_news_loop_spec[OF assms])
  let ?res = "fst (spec_get_news gen search cap language topics [] tr)"
  have e: "(\<forall>k items. map_of ?res k = Some items \<longrightarrow> int (length items) \<le> cap)
           \<and> dom (map_of ?res) = topic_name ` set topics"
    using spec_get_news_entries[OF assms, of "[]" gen search language topics tr]
    by simp
  have "\<forall>t \<in> set topics. \<exists>items. map_of ?res (topic_name t) = Some items
                                      \<and> int (length items) \<le> cap"
  proof
    fix t assume "t \<in> set topics"
    with e have "topic_name t \<in> dom (map_of ?res)" by simp
    then obtain items where "map_of ?res (topic_name t) = Some items" by blast
    with e show "\<exists>items. map_of ?res (topic_name t) = Some items \<and> int (length items) \<le> cap"
      by blast
  qed
  with eq show ?thesis by simp
qed

theorem news_items_capped_witness:
  "get_news_for_topics (\<lambda>tr req. None)
     (\<lambda>tr query language.
        Some (replicate 5 \<lparr>raw_fields = [(u ''title'', PStr (u ''T''))], raw_source = None\<rparr>))
     3 [\<lparr>topic_name = u ''AI'', topic_description = None\<rparr>] (u ''es'') []
   = spec_get_news (\<lambda>tr req. None)
       (\<lambda>tr query language.
          Some (replicate 5 \<lparr>raw_fields = [(u ''title'', PStr (u ''T''))], raw_source = None\<rparr>))
       3 (u ''es'') [\<lparr>topic_name = u ''AI'', topic_description = None\<rparr>] [] []
   \<and> (\<exists>items. map_of (fst (get_news_for_topics (\<lambda>tr req. None)
                          (\<lambda>tr query language.
                             Some (replicate 5 \<lparr>raw_fields = [(u ''title'', PStr (u ''T''))],
                                                raw_source = None\<rparr>))
                          3 [\<lparr>topic_name = u ''AI'', topic_description = None\<rparr>] (u ''es'') []))
                 (u ''AI'') = Some items
              \<and> int (length items) \<le> 3)"
proof -
  have h: "(0::int) \<le> 3" by simp
  note th = news_items_capped
    [OF h, where gen = "\<lambda>tr req. None"
       and search = "\<lambda>tr query language.
             Some (replicate 5 \<lparr>raw_fields = [(u ''title'', PStr (u ''T''))],
                                raw_source = None\<rparr>)"
       and topics = "[\<lparr>topic_name = u ''AI'', topic_description = None\<rparr>]"
       and language = "u ''es''" and tr = "[]"]
  from th have a: "get_news_for_topics (\<lambda>tr req. None)
     (\<lambda>tr query language.
        Some (replicate 5 \<lparr>raw_fields = [(u ''title'', PStr (u ''T''))], raw_source = None\<rparr>))
     3 [\<lparr>topic_name = u ''AI'', topic_description = None\<rparr>] (u ''es'') []
   = spec_get_news (\<lambda>tr req. None)
       (\<lambda>tr query language.
          Some (replicate 5 \<lparr>raw_fields = [(u ''title'', PStr (u ''T''))], raw_source = None\<rparr>))
       3 (u ''es'') [\<lparr>topic_name = u ''AI'', topic_description = None\<rparr>] [] []"
    by (rule conjunct1)
  from th have "\<forall>t \<in> set [\<lparr>topic_name = u ''AI'', topic_description = None\<rparr>].
      \<exists>items. map_of (fst (get_news_for_topics (\<lambda>tr req. None)
                          (\<lambda>tr query language.
                             Some (replicate 5 \<lparr>raw_fields = [(u ''title'', PStr (u ''T''))],
                                                raw_source = None\<rparr>))
                          3 [\<lparr>topic_name = u ''AI'', topic_description = None\<rparr>] (u ''es'') []))
                 (topic_name t) = Some items
              \<and> int (length items) \<le> 3"
    by (rule conjunct2)
  then have b: "\<exists>items. map_of (fst (get_news_for_topics (\<lambda>tr req. None)
                          (\<lambda>tr query language.
                             Some (replicate 5 \<lparr>raw_fields = [(u ''title'', PStr (u ''T''))],
                                                raw_source = None\<rparr>))
                          3 [\<lparr>topic_name = u ''AI'', topic_description = None\<rparr>] (u ''es'') []))
                 (u ''AI'') = Some items
              \<and> int (length items) \<le> 3"
    by simp
  from a b show ?thesis by (rule conjI)
qed

text \<open>
  With the cap -1 and a search that answers five items, the slice \<open>news_items[:-1]\<close> leaves
  four: more than the cap.
\<close>

theorem negative_cap_counterexample:
  "map (\<lambda>p. int (length (snd p)))
     (fst (get_news_for_topics (\<lambda>tr req. None)
             (\<lambda>tr query language.
                Some (replicate 5 \<lparr>raw_fields = [(u ''title'', PStr (u ''T''))],
                                   raw_source = None\<rparr>))
             (- 1) [\<lparr>topic_name = u ''AI'', topic_description = None\<rparr>] (u ''es'') []))
   = [4]
   \<and> \<not> (4::int) \<le> - 1"
  by (simp add: get_news_for_topics_def get_search_terms_def fetch_from_news_api_def
        py_slice_to_def numeral_eq_Suc)

lemma capped_run:
  "map (length \<circ> snd) (fst (get_news_for_topics (\<lambda>tr req. None)
                          (\<lambda>tr query language.
                             Some (replicate 5 \<lparr>raw_fields = [(u ''title'', PStr (u ''T''))],
                                                raw_source = None\<rparr>))
                          3 [\<lparr>topic_name = u ''AI'', topic_description = None\<rparr>] (u ''es'') []))
   = [3]"
  by (simp add: get_news_for_topics_def get_search_terms_def fetch_from_news_api_def
        py_slice_to_def numeral_eq_Suc)

section \<open>SummarizerAgent: what the loop over the topics calls\<close>

lemma summarize_article_trace:
  "snd (summarize_article gen n article topic incl tr)
     = tr @ [GenCall (article_prompt n article topic incl)]"
  by (simp add: summarize_article_def Let_def)

lemma summarize_articles_trace:
  "\<exists>evs. snd (summarize_articles gen n topic incl as tr) = tr @ evs
         \<and> (\<forall>e \<in> set evs. request_topic e = Some topic)"
proof (induction as arbitrary: tr)
  case Nil
  then show ?case by simp
next
  case (Cons a as)
  let ?tr1 = "tr @ [GenCall (article_prompt n a topic incl)]"
  from Cons.IH[of ?tr1] obtain evs where
    evs: "snd (summarize_articles gen n topic incl as ?tr1) = ?tr1 @ evs"
         "\<forall>e \<in> set evs. request_topic e = Some topic" by blast
  have "snd (summarize_articles gen n topic incl (a # as) tr) = ?tr1
        \<or> snd (summarize_articles gen n topic incl (a # as) tr)
            = tr @ (GenCall (article_prompt n a topic incl) # evs)"
    using evs(1) summarize_article_trace[of gen n a topic incl tr]
    by (auto split: prod.splits sum.splits)
  moreover have "\<forall>e \<in> set (GenCall (article_prompt n a topic incl) # evs).
                   request_topic e = Some topic"
    using evs(2) by (simp add: article_prompt_def)
  moreover have "\<forall>e \<in> set [GenCall (article_prompt n a topic incl)].
                   request_topic e = Some topic"
    by (simp add: article_prompt_def)
  ultimately show ?case by blast
qed

lemma generate_topic_summary_trace:
  "\<exists>evs. snd (generate_topic_summary gen topic news_items tr) = tr @ evs
         \<and> (\<forall>e \<in> set evs. request_topic e = Some topic)"
  by (cases "topic_context news_items") (simp_all add: generate_topic_summary_def)

lemma summarize_loop_trace:
  "\<exists>evs. snd (summarize_loop gen n incl d acc tr) = tr @ evs
         \<and> (\<forall>e \<in> set evs. \<exists>t items. (t, items) \<in> set d \<and> items \<noteq> []
                                        \<and> request_topic e = Some t)"
proof (induction d arbitrary: acc tr)
  case Nil
  then show ?case by simp
next
  case (Cons p d)
  obtain topic news_items where p: "p = (topic, news_items)" by (cases p)
  show ?case
  proof (cases "news_items = []")
    case True
    from Cons.IH[of "AList.update topic
                \<lparr>bundle_summary = Some (PStr (no_news_summary topic)),
                 bundle_articles = Some []\<rparr> acc" tr]
    obtain evs where evs:
      "snd (summarize_loop gen n incl d (AList.update topic
                \<lparr>bundle_summary = Some (PStr (no_news_summary topic)),
                 bundle_articles = Some []\<rparr> acc) tr) = tr @ evs"
      "\<forall>e \<in> set evs. \<exists>t items. (t, items) \<in> set d \<and> items \<noteq> []
                                    \<and> request_topic e = Some t"
      by blast
    have "snd (summarize_loop gen n incl (p # d) acc tr) = tr @ evs"
      using p True evs(1) by simp
    moreover have "\<forall>e \<in> set evs. \<exists>t items. (t, items) \<in> set (p # d) \<and> items \<noteq> []
                                    \<and> request_topic e = Some t"
      using evs(2) by (meson list.set_intros(2))
    ultimately show ?thesis by blast
  next
    case False
    obtain r tr1 where g: "generate_topic_summary gen topic news_items tr = (r, tr1)"
      by (cases "generate_topic_summary gen topic news_items tr")
    from generate_topic_summary_trace[of gen topic news_items tr] g
    obtain evs1 where evs1: "tr1 = tr @ evs1" "\<forall>e \<in> set evs1. request_topic e = Some topic"
      by auto
    obtain r2 tr2 where s: "summarize_articles gen n topic incl news_items tr1 = (r2, tr2)"
      by (cases "summarize_articles gen n topic incl news_items tr1")
    from summarize_articles_trace[of gen n topic incl news_items tr1] s
    obtain evs2 where evs2: "tr2 = tr1 @ evs2" "\<forall>e \<in> set evs2. request_topic e = Some topic"
      by auto
    have own: "\<forall>e \<in> set (evs1 @ evs2). \<exists>t items. (t, items) \<in> set (p # d) \<and> items \<noteq> []
                                    \<and> request_topic e = Some t"
      using p False evs1(2) evs2(2) by auto
    show ?thesis
    proof (cases r)
      case (Inl e)
      with p False g evs1 own show ?thesis by auto
    next
      case (Inr topic_summary)
      show ?thesis
      proof (cases r2)
        case (Inl e)
        have "snd (summarize_loop gen n incl (p # d) acc tr) = tr @ (evs1 @ evs2)"
          using p False g Inr s Inl evs1(1) evs2(1) by simp
        with own show ?thesis by blast
      next
        case (Inr sas)
        from Cons.IH[of "AList.update topic
                            \<lparr>bundle_summary = Some (PStr topic_summary),
                             bundle_articles = Some sas\<rparr> acc" tr2]
        obtain evs3 where evs3:
          "snd (summarize_loop gen n incl d (AList.update topic
                            \<lparr>bundle_summary = Some (PStr topic_summary),
                             bundle_articles = Some sas\<rparr> acc) tr2) = tr2 @ evs3"
          "\<forall>e \<in> set evs3. \<exists>t items. (t, items) \<in> set d \<and> items \<noteq> []
                                          \<and> request_topic e = Some t"
          by blast
        have "snd (summarize_loop gen n incl (p # d) acc tr) = tr @ ((evs1 @ evs2) @ evs3)"
          using p False g \<open>r = Inr topic_summary\<close> s Inr evs1(1) evs2(1) evs3(1) by simp
        moreover have "\<forall>e \<in> set ((evs1 @ evs2) @ evs3).
                         \<exists>t items. (t, items) \<in> set (p # d) \<and> items \<noteq> []
                                   \<and> request_topic e = Some t"
        proof
          fix e assume "e \<in> set ((evs1 @ evs2) @ evs3)"
          then consider "e \<in> set (evs1 @ evs2)" | "e \<in> set evs3" by auto
          then show "\<exists>t items. (t, items) \<in> set (p # d) \<and> items \<noteq> []
                                 \<and> request_topic e = Some t"
          proof cases
            case 1
            with own show ?thesis by blast
          next
            case 2
            with evs3(2) show ?thesis by (meson list.set_intros(2))
          qed
        qed
        ultimately show ?thesis by blast
      qed
    qed
  qed
qed

section \<open>SummarizerAgent: topics without items\<close>

lemma summarize_loop_other:
  "t \<notin> fst ` set d \<Longrightarrow> fst (summarize_loop gen n incl d acc tr) = Inr res \<Longrightarrow>
   map_of res t = map_of acc t"
proof (induction d arbitrary: acc tr)
  case Nil
  then show ?case by simp
next
  case (Cons p d)
  obtain topic news_items where p: "p = (topic, news_items)" by (cases p)
  from Cons.prems(1) p have ne: "t \<noteq> topic" and nd: "t \<notin> fst ` set d" by auto
  show ?case
  proof (cases "news_items = []")
    case True
    with Cons.prems(2) p Cons.IH[OF nd] ne show ?thesis by (simp add: update_conv')
  next
    case False
    with Cons.prems(2) p Cons.IH[OF nd] ne show ?thesis
      by (auto simp add: update_conv' split: prod.splits sum.splits)
  qed
qed

lemma summarize_loop_empty:
  "distinct (map fst d) \<Longrightarrow> (t, []) \<in> set d \<Longrightarrow>
   fst (summarize_loop gen n incl d acc tr) = Inr res \<Longrightarrow>
   map_of res t = Some \<lparr>bundle_summary = Some (PStr (no_news_summary t)),
                         bundle_articles = Some []\<rparr>"
proof (induction d arbitrary: acc tr)
  case Nil
  then show ?case by simp
next
  case (Cons p d)
  obtain topic news_items where p: "p = (topic, news_items)" by (cases p)
  from Cons.prems(1) p have nd: "topic \<notin> fst ` set d" and dd: "distinct (map fst d)" by auto
  show ?case
  proof (cases "(t, []) \<in> set d")
    case True
    with Cons.prems(3) p Cons.IH[OF dd True] show ?thesis
      by (auto split: if_splits prod.splits sum.splits)
  next
    case False
    with Cons.prems(2) p have tp: "topic = t" "news_items = []" by auto
    with Cons.prems(3) p nd summarize_loop_other[of t d gen n incl _ tr res]
    show ?thesis by (simp add: update_conv')
  qed
qed

text \<open>
  For a topic without items, every mapping \<open>summarize_news_by_topic\<close> returns holds the
  canned synopsis and no items, and no generation request of the run is about the topic,
  whether the run returns or raises.
\<close>

lemma empty_topic_entry:
  assumes "distinct (map fst news_by_topic)" and "(topic, []) \<in> set news_by_topic"
    and "fst (summarize_news_by_topic gen n incl news_by_topic tr) = Inr res"
  shows "map_of res topic = Some \<lparr>bundle_summary = Some (PStr (no_news_summary topic)),
                                    bundle_articles = Some []\<rparr>"
  using assms summarize_loop_empty unfolding summarize_news_by_topic_def by blast

lemma empty_topic_no_request:
  assumes "distinct (map fst news_by_topic)" and "(topic, []) \<in> set news_by_topic"
  shows "\<exists>evs. snd (summarize_news_by_topic gen n incl news_by_topic tr) = tr @ evs
               \<and> (\<forall>e \<in> set evs. request_topic e \<noteq> Some topic)"
proof -
  from summarize_loop_trace[of gen n incl news_by_topic "[]" tr]
  obtain evs where evs: "snd (summarize_news_by_topic gen n incl news_by_topic tr) = tr @ evs"
    "\<forall>e \<in> set evs. \<exists>t items. (t, items) \<in> set news_by_topic \<and> items \<noteq> []
                                 \<and> request_topic e = Some t"
    unfolding summarize_news_by_topic_def by blast
  have "\<forall>e \<in> set evs. request_topic e \<noteq> Some topic"
  proof
    fix e assume "e \<in> set evs"
    with evs(2) obtain t items where ti: "(t, items) \<in> set news_by_topic" "items \<noteq> []"
      "request_topic e = Some t" by blast
    have "t \<noteq> topic"
    proof
      assume "t = topic"
      with ti(1) assms have "items = []" by (metis eq_key_imp_eq_value)
      with ti(2) show False by simp
    qed
    with ti(3) show "request_topic e \<noteq> Some topic" by simp
  qed
  with evs(1) show ?thesis by blast
qed

text \<open>
  Claim C3 at a mapping with a topic without items and a topic whose only item has the
  title \<open>None\<close>: the join of the titles raises before the \<open>try\<close> of
  \<open>_generate_topic_summary\<close>, \<open>summarize_news_by_topic\<close> returns no mapping, and the topic
  without items gets no result.
\<close>

theorem no_result_for_empty_topic:
  "summarize_news_by_topic gen 150 True
     [(u ''B'', []), (u ''AI'', [[(u ''title'', PNone)]])] tr
   = (Inl TypeError, tr)"
  by (simp add: summarize_news_by_topic_def generate_topic_summary_def topic_context_def
        py_join_vals_def dict_get_def)

section \<open>The topics of the results\<close>

lemma update_append:
  "k \<notin> fst ` set al \<Longrightarrow> AList.update k v al = al @ [(k, v)]"
  by (induction al) auto

lemma get_news_loop_keys:
  "distinct (map fst results @ map topic_name ts) \<Longrightarrow>
   map fst (fst (get_news_loop gen search cap language ts results tr))
     = map fst results @ map topic_name ts"
proof (induction ts arbitrary: results tr)
  case Nil
  then show ?case by simp
next
  case (Cons t ts)
  from Cons.prems have nk: "topic_name t \<notin> fst ` set results" by auto
  have dist: "distinct (map fst (AList.update (topic_name t) v results) @ map topic_name ts)" for v
    using Cons.prems nk by (simp add: update_append)
  show ?case
    using Cons.IH[OF dist] nk by (simp add: update_append split: prod.splits)
qed

lemma get_news_for_topics_keys:
  "distinct (map topic_name topics) \<Longrightarrow>
   map fst (fst (get_news_for_topics gen search cap topics language tr)) = map topic_name topics"
  using get_news_loop_keys[of "[]" topics gen search cap language tr]
  by (simp add: get_news_for_topics_def)

lemma summarize_loop_keys:
  "distinct (map fst acc @ map fst d) \<Longrightarrow>
   fst (summarize_loop gen n incl d acc tr) = Inr res \<Longrightarrow>
   map fst res = map fst acc @ map fst d"
proof (induction d arbitrary: acc tr)
  case Nil
  then show ?case by simp
next
  case (Cons p d)
  obtain topic news_items where p: "p = (topic, news_items)" by (cases p)
  from Cons.prems(1) p have nk: "topic \<notin> fst ` set acc" by auto
  have dist: "distinct (map fst (AList.update topic v acc) @ map fst d)" for v
    using Cons.prems(1) p nk by (simp add: update_append)
  show ?case
    using Cons.prems(2) p Cons.IH[OF dist] nk
    by (auto simp add: update_append split: if_splits prod.splits sum.splits)
qed

lemma summarize_news_by_topic_keys:
  "distinct (map fst news_by_topic) \<Longrightarrow>
   fst (summarize_news_by_topic gen n incl news_by_topic tr) = Inr res \<Longrightarrow>
   map fst res = map fst news_by_topic"
  using summarize_loop_keys[of "[]" news_by_topic gen n incl tr res]
  by (simp add: summarize_news_by_topic_def)

text \<open>
  Claim C10 at an item whose title is \<open>None\<close>: \<open>_generate_topic_summary\<close> joins the
  titles before its \<open>try\<close>, the join raises, and \<open>summarize_news_by_topic\<close> returns no
  mapping. The placeholder pipeline reaches this when the search service answers with a
  null title.
\<close>

theorem summarize_raises_on_null_title:
  "summarize_news_by_topic gen 150 True [(u ''AI'', [[(u ''title'', PNone)]])] tr
     = (Inl TypeError, tr)
   \<and> fst (mock_newsletter upper
           \<lparr>env_gen = (\<lambda>tr req. None),
            env_search = (\<lambda>tr query language.
                            Some [\<lparr>raw_fields = [(u ''title'', PNone)], raw_source = None\<rparr>]),
            env_clock = clock, env_render = render, env_smtp = smtp\<rparr> user_id (u ''es'') [])
     = Inl TypeError"
  by (simp add: summarize_news_by_topic_def generate_topic_summary_def topic_context_def
        py_join_vals_def dict_get_def mock_newsletter_def get_news_for_topics_def
        get_search_terms_def fetch_from_news_api_def process_article_def mock_topics_def
        py_slice_to_def)

section \<open>The text body of two runs\<close>




section \<open>A placeholder run from end to end\<close>

text \<open>
  With every generation and search call failing and no mail credentials, the placeholder
  run succeeds on the simulated delivery and reports the two topics and the fallback
  title.
\<close>

lemma placeholder_run:
  "fst (generate_and_send_newsletter_mock upper_basic str_of
          \<lparr>EMAIL_HOST = None, EMAIL_PORT = 587, EMAIL_USERNAME = None, EMAIL_PASSWORD = None,
           EMAIL_FROM = None\<rparr> day_one (u ''mock_user_1'') (u ''email'') (u ''es'') [])
   = Inr \<lparr>run_success = True,
          run_message = u ''Simulaci'' @ [243] @ u ''n de env'' @ [237]
                        @ u ''o exitosa (modo desarrollo)'',
          run_user_id = u ''mock_user_1'', run_channel = u ''email'',
          run_topics = [u ''Inteligencia Artificial'', u ''Cambio Clim'' @ [225] @ u ''tico''],
          run_newsletter_title =
            u ''Tu Resumen de Noticias: Inteligencia Artificial, Cambio Clim'' @ [225] @ u ''tico''\<rparr>"
  by (simp add: generate_and_send_newsletter_mock_def day_one_def mock_newsletter_def
        get_news_for_topics_def get_search_terms_def fetch_from_news_api_def mock_topics_def
        py_slice_to_def summarize_news_by_topic_def format_newsletter_def generate_title_def
        generate_introduction_def get_formatted_date_def Let_def topics_text_def
        mock_user_data_def dict_get_def send_newsletter_def sender_channels_def
        send_by_email_def all_credentials_def configured_def mime_encodable_def refused_def
        surrogate_def escapable_def read_header_def printable_def generate_text_version_def
        generate_simple_html_def topic_entry_def text_topic_def html_topic_def
        no_news_summary_def upper_basic_def)

end
